theory Spec2Isabelle
  imports Complex_Main "HOL-Library.AList"
begin

section \<open>Values\<close>

text \<open>
  The pipeline of \<^verbatim>\<open>src/etl/transform.py\<close> works on a pandas DataFrame whose cells are
  Python strings or floats; a missing value is the float NaN, as \<^verbatim>\<open>read_csv\<close> leaves it.

  A float is NaN, an infinity or a finite number. Finite numbers are idealised: they are
  reals and arithmetic on them is exact, so rounding error, overflow and the sign of zero
  are outside this development. The special values follow IEEE 754, which is what
  pandas computes with: NaN propagates, a nonzero finite number divided by zero is an
  infinity, and zero divided by zero is NaN. No operation raises.

  A string is a list of characters read as code points below 256.
\<close>

datatype fl = NaN | NegInf | Finite real | PosInf

datatype cell = Str string | Flt fl

datatype error = KeyError string | AttributeError | TypeError

text \<open>A raised exception is \<open>Inl\<close>; \<open>and_then\<close> runs the rest of the code on a value.\<close>

definition and_then :: "error + 'a \<Rightarrow> ('a \<Rightarrow> error + 'b) \<Rightarrow> error + 'b" where
  "and_then m f = (case m of Inl e \<Rightarrow> Inl e | Inr v \<Rightarrow> f v)"

text \<open>\<^verbatim>\<open>pd.isna\<close> on a scalar.\<close>

definition isna :: "cell \<Rightarrow> bool" where
  "isna v = (v = Flt NaN)"

subsection \<open>Float arithmetic\<close>

fun fl_sub :: "fl \<Rightarrow> fl \<Rightarrow> fl" where
  "fl_sub NaN y = NaN"
| "fl_sub x NaN = NaN"
| "fl_sub (Finite a) (Finite b) = Finite (a - b)"
| "fl_sub PosInf PosInf = NaN"
| "fl_sub NegInf NegInf = NaN"
| "fl_sub PosInf y = PosInf"
| "fl_sub NegInf y = NegInf"
| "fl_sub x PosInf = NegInf"
| "fl_sub x NegInf = PosInf"

fun fl_div :: "fl \<Rightarrow> fl \<Rightarrow> fl" where
  "fl_div NaN y = NaN"
| "fl_div x NaN = NaN"
| "fl_div (Finite a) (Finite b) =
     (if b = 0 then (if a = 0 then NaN else if 0 < a then PosInf else NegInf)
      else Finite (a / b))"
| "fl_div (Finite a) y = Finite 0"
| "fl_div PosInf (Finite b) = (if 0 \<le> b then PosInf else NegInf)"
| "fl_div NegInf (Finite b) = (if 0 \<le> b then NegInf else PosInf)"
| "fl_div x y = NaN"

fun fl_mul :: "fl \<Rightarrow> fl \<Rightarrow> fl" where
  "fl_mul NaN y = NaN"
| "fl_mul x NaN = NaN"
| "fl_mul (Finite a) (Finite b) = Finite (a * b)"
| "fl_mul (Finite a) PosInf = (if a = 0 then NaN else if 0 < a then PosInf else NegInf)"
| "fl_mul (Finite a) NegInf = (if a = 0 then NaN else if 0 < a then NegInf else PosInf)"
| "fl_mul PosInf (Finite b) = (if b = 0 then NaN else if 0 < b then PosInf else NegInf)"
| "fl_mul NegInf (Finite b) = (if b = 0 then NaN else if 0 < b then NegInf else PosInf)"
| "fl_mul PosInf PosInf = PosInf"
| "fl_mul NegInf NegInf = PosInf"
| "fl_mul x y = NegInf"

text \<open>
  \<^verbatim>\<open>Series.round(2)\<close> scales by 100, rounds to the nearest integer with ties to the even
  one, and scales back; NaN and the infinities stay as they are.
\<close>

definition rint :: "real \<Rightarrow> int" where
  "rint x = (let f = \<lfloor>x\<rfloor>; d = x - of_int f in
     if d < 1 / 2 then f else if 1 / 2 < d then f + 1 else if even f then f else f + 1)"

definition round2 :: "real \<Rightarrow> real" where
  "round2 x = of_int (rint (x * 100)) / 100"

fun fl_round2 :: "fl \<Rightarrow> fl" where
  "fl_round2 (Finite a) = Finite (round2 a)"
| "fl_round2 x = x"

subsection \<open>Strings\<close>

text \<open>\<^verbatim>\<open>str.isspace\<close> for one character below code point 256.\<close>

definition isspace :: "char \<Rightarrow> bool" where
  "isspace c = (let n = (of_char c :: nat) in
     (9 \<le> n \<and> n \<le> 13) \<or> (28 \<le> n \<and> n \<le> 32) \<or> n = 133 \<or> n = 160)"

text \<open>\<^verbatim>\<open>s.strip()\<close>: whitespace removed at both ends.\<close>

definition str_strip :: "string \<Rightarrow> string" where
  "str_strip s = rev (dropWhile isspace (rev (dropWhile isspace s)))"

text \<open>\<^verbatim>\<open>s.split(sep)\<close> for a one-character separator: one piece more than separators.\<close>

fun str_split :: "char \<Rightarrow> string \<Rightarrow> string list" where
  "str_split sep [] = [[]]"
| "str_split sep (c # cs) =
     (if c = sep then [] # str_split sep cs
      else (case str_split sep cs of [] \<Rightarrow> [[c]] | p # ps \<Rightarrow> (c # p) # ps))"

text \<open>\<^verbatim>\<open>sep.join(xs)\<close>.\<close>

fun str_join :: "string \<Rightarrow> string list \<Rightarrow> string" where
  "str_join sep [] = []"
| "str_join sep [x] = x"
| "str_join sep (x # y # ys) = x @ sep @ str_join sep (y # ys)"

text \<open>\<^verbatim>\<open>d.get(k, default)\<close> on a dict written as its list of items.\<close>

definition dict_get :: "('k \<times> 'v) list \<Rightarrow> 'k \<Rightarrow> 'v \<Rightarrow> 'v" where
  "dict_get d k dflt = (case map_of d k of Some v \<Rightarrow> v | None \<Rightarrow> dflt)"

section \<open>Genre normalisation\<close>

definition GENRE_CORRECTIONS :: "(string \<times> string) list" where
  "GENRE_CORRECTIONS =
    [(''Horor'', ''Horror''),
     (''Mistery'', ''Mystery''),
     (''Misterija'', ''Mystery''),
     (''Krimi'', ''Crime''),
     (''Komedija'', ''Comedy''),
     (''Akcija'', ''Action''),
     (''Romantic Drama'', ''Drama''),
     (''Comedy-Drama'', ''Drama''),
     (''Crime Drama'', ''Crime''),
     (''Sports Drama'', ''Drama''),
     (''War Drama'', ''Drama''),
     (''Historical Drama'', ''Drama''),
     (''Thriller'', ''Thriller''),
     (''Avant-Garde'', ''Documentary'')]"

definition fix_genre :: "string \<Rightarrow> string" where
  "fix_genre genre = (let genre = str_strip genre in dict_get GENRE_CORRECTIONS genre genre)"

text \<open>
  The loop of \<^verbatim>\<open>clean_genres\<close> over \<^verbatim>\<open>genres\<close>, with its two variables \<^verbatim>\<open>seen\<close> and
  \<^verbatim>\<open>unique_genres\<close>.
\<close>

fun unique_loop :: "string list \<Rightarrow> string set \<Rightarrow> string list \<Rightarrow> string list" where
  "unique_loop [] seen unique_genres = unique_genres"
| "unique_loop (g # genres) seen unique_genres =
     (if g \<notin> seen then unique_loop genres (insert g seen) (unique_genres @ [g])
      else unique_loop genres seen unique_genres)"

text \<open>
  \<^verbatim>\<open>clean_genres\<close> is called on a cell. A float that is not NaN has no \<^verbatim>\<open>split\<close>
  method: Python raises AttributeError.
\<close>

definition clean_genres :: "cell \<Rightarrow> error + string list" where
  "clean_genres genre_string =
     (if isna genre_string then Inr []
      else (case genre_string of
              Flt x \<Rightarrow> Inl AttributeError
            | Str s \<Rightarrow>
                (let genres = map fix_genre (str_split CHR '','' s)
                 in Inr (unique_loop genres {} []))))"

text \<open>
  The normalisation in the words of the specification: split on the comma, trim each
  piece, look each up in the correction table (an unmapped label passes through), keep
  the first occurrence of each label.
\<close>

definition correct :: "string \<Rightarrow> string" where
  "correct g = (case map_of GENRE_CORRECTIONS g of Some v \<Rightarrow> v | None \<Rightarrow> g)"

definition first_occurrences :: "'a list \<Rightarrow> 'a list" where
  "first_occurrences xs =
     map (\<lambda>i. xs ! i) (filter (\<lambda>i. xs ! i \<notin> set (take i xs)) [0..<length xs])"

definition normalize_genres_spec :: "string \<Rightarrow> string list" where
  "normalize_genres_spec s =
     first_occurrences (map correct (map str_strip (str_split CHR '','' s)))"

section \<open>DataFrames\<close>

text \<open>
  A DataFrame is its number of rows and its columns in order, each a name and one cell
  per row. pandas keeps every column as long as the index and (after \<^verbatim>\<open>read_csv\<close>) the
  names distinct: \<open>frame_ok\<close>.
\<close>

record frame =
  nrows :: nat
  columns :: "(string \<times> cell list) list"

definition frame_ok :: "frame \<Rightarrow> bool" where
  "frame_ok df = (distinct (map fst (columns df)) \<and>
     list_all (\<lambda>col. length (snd col) = nrows df) (columns df))"

text \<open>\<^verbatim>\<open>df[c]\<close>, \<^verbatim>\<open>df[c] = col\<close> and \<^verbatim>\<open>df.drop(columns=[c])\<close>.\<close>

definition getitem :: "frame \<Rightarrow> string \<Rightarrow> error + cell list" where
  "getitem df c = (case map_of (columns df) c of None \<Rightarrow> Inl (KeyError c) | Some col \<Rightarrow> Inr col)"

definition setitem :: "frame \<Rightarrow> string \<Rightarrow> cell list \<Rightarrow> frame" where
  "setitem df c col = df\<lparr>columns := AList.update c col (columns df)\<rparr>"

definition drop_column :: "frame \<Rightarrow> string \<Rightarrow> error + frame" where
  "drop_column df c =
     (if c \<in> set (map fst (columns df)) then Inr (df\<lparr>columns := AList.delete c (columns df)\<rparr>)
      else Inl (KeyError c))"

text \<open>\<^verbatim>\<open>Series.replace(old, new)\<close>.\<close>

definition series_replace :: "cell \<Rightarrow> cell \<Rightarrow> cell list \<Rightarrow> cell list" where
  "series_replace old new col = map (\<lambda>v. if v = old then new else v) col"

text \<open>
  \<^verbatim>\<open>Series.str.strip()\<close>. The \<^verbatim>\<open>.str\<close> accessor needs a column of strings: on a
  numeric column it raises AttributeError. A column as \<^verbatim>\<open>read_csv\<close> makes it is numeric
  when it has rows and none of its cells is a string. On a column of strings, a cell that
  is not a string becomes NaN.
\<close>

definition is_str :: "cell \<Rightarrow> bool" where
  "is_str v = (case v of Str s \<Rightarrow> True | Flt x \<Rightarrow> False)"

definition strip_cell :: "cell \<Rightarrow> cell" where
  "strip_cell v = (case v of Str s \<Rightarrow> Str (str_strip s) | Flt x \<Rightarrow> Flt NaN)"

definition strip_cells :: "cell list \<Rightarrow> cell list" where
  "strip_cells col = map strip_cell col"

definition series_str_strip :: "cell list \<Rightarrow> error + cell list" where
  "series_str_strip col =
     (if col \<noteq> [] \<and> \<not> list_ex is_str col then Inl AttributeError
      else Inr (strip_cells col))"

text \<open>
  \<^verbatim>\<open>pd.to_numeric(col, errors='coerce')\<close>. How pandas reads a string as a number is not
  part of the repository: it is the parameter \<open>parse\<close>, which gives \<open>None\<close> for a
  string that is not a number.
\<close>

definition numeric_value :: "(string \<Rightarrow> fl option) \<Rightarrow> cell \<Rightarrow> fl" where
  "numeric_value parse v =
     (case v of Flt x \<Rightarrow> x
      | Str s \<Rightarrow> (case parse s of Some x \<Rightarrow> x | None \<Rightarrow> NaN))"

definition to_numeric :: "(string \<Rightarrow> fl option) \<Rightarrow> cell list \<Rightarrow> cell list" where
  "to_numeric parse col = map (\<lambda>v. Flt (numeric_value parse v)) col"

text \<open>Arithmetic on a column needs numbers: a string operand raises TypeError.\<close>

fun series_values :: "cell list \<Rightarrow> error + fl list" where
  "series_values [] = Inr []"
| "series_values (Str s # vs) = Inl TypeError"
| "series_values (Flt x # vs) =
     (case series_values vs of Inl e \<Rightarrow> Inl e | Inr xs \<Rightarrow> Inr (x # xs))"

text \<open>
  \<^verbatim>\<open>df.iterrows()\<close>: each row maps the column names to its cells. Row \<open>i\<close> is read
  for \<open>i\<close> below \<open>nrows df\<close>, which is the length of every column of a frame that is
  \<open>frame_ok\<close>.
\<close>

definition iterrows :: "frame \<Rightarrow> (string \<times> cell) list list" where
  "iterrows df = map (\<lambda>i. map (\<lambda>col. (fst col, snd col ! i)) (columns df)) [0..<nrows df]"

definition row_get :: "(string \<times> cell) list \<Rightarrow> string \<Rightarrow> error + cell" where
  "row_get row c = (case map_of row c of None \<Rightarrow> Inl (KeyError c) | Some v \<Rightarrow> Inr v)"

text \<open>
  \<^verbatim>\<open>pd.DataFrame(rows)\<close> for a list of dicts with the keys \<^verbatim>\<open>title\<close> and \<^verbatim>\<open>genre\<close>,
  each written as a pair. An empty list gives a frame with no columns.
\<close>

definition DataFrame :: "(cell \<times> string) list \<Rightarrow> frame" where
  "DataFrame rows =
     (if rows = [] then \<lparr>nrows = 0, columns = []\<rparr>
      else \<lparr>nrows = length rows,
            columns = [(''title'', map fst rows), (''genre'', map (\<lambda>r. Str (snd r)) rows)]\<rparr>)"

section \<open>The transformation\<close>

text \<open>The value of one \<^verbatim>\<open>roi\<close> cell (line 85 of \<^verbatim>\<open>transform.py\<close>).\<close>

definition roi_value :: "fl \<Rightarrow> fl \<Rightarrow> fl" where
  "roi_value box_office budget =
     fl_round2 (fl_mul (fl_div (fl_sub box_office budget) budget) (Finite 100))"

text \<open>Lines 66 to 74: the sentinel \<^verbatim>\<open>unknown\<close>, then the four numeric columns.\<close>

definition coerce_numeric :: "(string \<Rightarrow> fl option) \<Rightarrow> frame \<Rightarrow> error + frame" where
  "coerce_numeric parse df =
     and_then (getitem df ''box_office'') (\<lambda>c.
     let df = setitem df ''box_office'' (series_replace (Str ''unknown'') (Flt NaN) c) in
     and_then (getitem df ''budget'') (\<lambda>c.
     let df = setitem df ''budget'' (to_numeric parse c) in
     and_then (getitem df ''box_office'') (\<lambda>c.
     let df = setitem df ''box_office'' (to_numeric parse c) in
     and_then (getitem df ''duration'') (\<lambda>c.
     let df = setitem df ''duration'' (to_numeric parse c) in
     and_then (getitem df ''release_year'') (\<lambda>c.
     Inr (setitem df ''release_year'' (to_numeric parse c)))))))"

text \<open>Lines 76 to 80: the four text columns.\<close>

definition strip_text :: "frame \<Rightarrow> error + frame" where
  "strip_text df =
     and_then (getitem df ''title'') (\<lambda>c.
     and_then (series_str_strip c) (\<lambda>c.
     let df = setitem df ''title'' c in
     and_then (getitem df ''director'') (\<lambda>c.
     and_then (series_str_strip c) (\<lambda>c.
     let df = setitem df ''director'' c in
     and_then (getitem df ''language'') (\<lambda>c.
     and_then (series_str_strip c) (\<lambda>c.
     let df = setitem df ''language'' c in
     and_then (getitem df ''country'') (\<lambda>c.
     and_then (series_str_strip c) (\<lambda>c.
     Inr (setitem df ''country'' c)))))))))"

text \<open>Line 85.\<close>

definition add_roi :: "frame \<Rightarrow> error + frame" where
  "add_roi df =
     and_then (getitem df ''box_office'') (\<lambda>box_office.
     and_then (getitem df ''budget'') (\<lambda>budget.
     and_then (series_values box_office) (\<lambda>xs.
     and_then (series_values budget) (\<lambda>bs.
     Inr (setitem df ''roi'' (map Flt (map2 roi_value xs bs)))))))"

text \<open>Lines 97 to 104: the inner loop over the genres of one row, and the loop over the rows.\<close>

fun append_genres ::
  "(string \<times> cell) list \<Rightarrow> string list \<Rightarrow> (cell \<times> string) list \<Rightarrow> error + (cell \<times> string) list" where
  "append_genres row [] rows = Inr rows"
| "append_genres row (genre # genres) rows =
     (case row_get row ''title'' of
        Inl e \<Rightarrow> Inl e
      | Inr title \<Rightarrow> append_genres row genres (rows @ [(title, genre)]))"

fun genre_rows ::
  "(string \<times> cell) list list \<Rightarrow> (cell \<times> string) list \<Rightarrow> error + (cell \<times> string) list" where
  "genre_rows [] rows = Inr rows"
| "genre_rows (row # rest) rows =
     (case row_get row ''genre'' of
        Inl e \<Rightarrow> Inl e
      | Inr g \<Rightarrow>
          (case clean_genres g of
             Inl e \<Rightarrow> Inl e
           | Inr genres \<Rightarrow>
               (case append_genres row genres rows of
                  Inl e \<Rightarrow> Inl e
                | Inr rows' \<Rightarrow> genre_rows rest rows')))"

text \<open>
  Lines 108 to 114: the values the summary prints: the number of movies, of null
  \<^verbatim>\<open>box_office\<close> and \<^verbatim>\<open>budget\<close> cells, of genre rows, and of distinct genres.
\<close>

definition summary :: "frame \<Rightarrow> frame \<Rightarrow> error + (nat \<times> nat \<times> nat \<times> nat \<times> nat)" where
  "summary df_movies df_movie_genres =
     and_then (getitem df_movies ''box_office'') (\<lambda>box_office.
     and_then (getitem df_movies ''budget'') (\<lambda>budget.
     and_then (getitem df_movie_genres ''genre'') (\<lambda>genre.
     Inr (nrows df_movies, length (filter isna box_office), length (filter isna budget),
          nrows df_movie_genres, length (remdups (filter (\<lambda>v. \<not> isna v) genre))))))"

definition transform :: "(string \<Rightarrow> fl option) \<Rightarrow> frame \<Rightarrow> error + (frame \<times> frame)" where
  "transform parse df =
     and_then (coerce_numeric parse df) (\<lambda>df.
     and_then (strip_text df) (\<lambda>df.
     and_then (add_roi df) (\<lambda>df.
     and_then (drop_column df ''genre'') (\<lambda>df_movies.
     and_then (genre_rows (iterrows df) []) (\<lambda>rows.
     let df_movie_genres = DataFrame rows in
     and_then (summary df_movies df_movie_genres) (\<lambda>counts.
     Inr (df_movies, df_movie_genres)))))))"

section \<open>Example inputs\<close>

text \<open>
  A reader of unsigned decimal integers, one instance of the parameter \<open>parse\<close>: every
  string it accepts is a number for \<^verbatim>\<open>to_numeric\<close> as well.
\<close>

fun decimal_digits :: "nat \<Rightarrow> string \<Rightarrow> nat option" where
  "decimal_digits acc [] = Some acc"
| "decimal_digits acc (c # cs) =
     (let n = (of_char c :: nat) in
      if 48 \<le> n \<and> n \<le> 57 then decimal_digits (10 * acc + (n - 48)) cs else None)"

definition parse_decimal :: "string \<Rightarrow> fl option" where
  "parse_decimal s =
     (if s = [] then None
      else (case decimal_digits 0 s of None \<Rightarrow> None | Some n \<Rightarrow> Some (Finite (of_nat n))))"

text \<open>
  A table of two movies with the nine columns of the source file and one more column,
  as \<^verbatim>\<open>read_csv\<close> gives it (a column is numeric unless one of its cells is not a
  number), and the two tables that the transformation makes of it.
\<close>

definition example_frame :: frame where
  "example_frame =
     \<lparr>nrows = 2,
      columns = [(''title'', [Str '' Dune '', Str ''Dune'']),
                 (''release_year'', [Flt (Finite 2021), Flt (Finite 1984)]),
                 (''director'', [Str ''Denis Villeneuve '', Str ''David Lynch'']),
                 (''language'', [Str ''English'', Flt NaN]),
                 (''country'', [Str '' USA'', Str ''USA'']),
                 (''duration'', [Str ''155'', Str ''101 min'']),
                 (''budget'', [Flt (Finite 165000000), Flt (Finite 100)]),
                 (''box_office'', [Str ''unknown'', Str ''250'']),
                 (''genre'', [Str ''Action, Akcija'', Str ''Sci-Fi, Horor'']),
                 (''rating'', [Str ''PG-13'', Flt NaN])]\<rparr>"

definition example_movies :: frame where
  "example_movies =
     \<lparr>nrows = 2,
      columns = [(''title'', [Str ''Dune'', Str ''Dune'']),
                 (''release_year'', [Flt (Finite 2021), Flt (Finite 1984)]),
                 (''director'', [Str ''Denis Villeneuve'', Str ''David Lynch'']),
                 (''language'', [Str ''English'', Flt NaN]),
                 (''country'', [Str ''USA'', Str ''USA'']),
                 (''duration'', [Flt (Finite 155), Flt NaN]),
                 (''budget'', [Flt (Finite 165000000), Flt (Finite 100)]),
                 (''box_office'', [Flt NaN, Flt (Finite 250)]),
                 (''rating'', [Str ''PG-13'', Flt NaN]),
                 (''roi'', [Flt NaN, Flt (Finite 150)])]\<rparr>"

definition example_links :: frame where
  "example_links =
     \<lparr>nrows = 3,
      columns = [(''title'', [Str ''Dune'', Str ''Dune'', Str ''Dune'']),
                 (''genre'', [Str ''Action'', Str ''Sci-Fi'', Str ''Horror''])]\<rparr>"


definition no_genre_frame :: frame where
  "no_genre_frame =
     \<lparr>nrows = 1,
      columns = [(''title'', [Str ''Clerks'']), (''release_year'', [Flt (Finite 1994)]),
                 (''director'', [Str ''Kevin Smith'']), (''language'', [Str ''English'']),
                 (''country'', [Str ''USA'']), (''duration'', [Flt (Finite 92)]),
                 (''budget'', [Flt (Finite 100)]), (''box_office'', [Flt (Finite 250)]),
                 (''genre'', [Flt NaN])]\<rparr>"

definition stale_roi_frame :: frame where
  "stale_roi_frame =
     \<lparr>nrows = 1,
      columns = [(''title'', [Str ''Clerks'']), (''release_year'', [Flt (Finite 1994)]),
                 (''director'', [Str ''Kevin Smith'']), (''language'', [Str ''English'']),
                 (''country'', [Str ''USA'']), (''duration'', [Flt (Finite 92)]),
                 (''budget'', [Flt (Finite 100)]), (''box_office'', [Flt (Finite 250)]),
                 (''genre'', [Str ''Comedy'']), (''roi'', [Flt (Finite 12)])]\<rparr>"

section \<open>Properties of the genre normalisation\<close>

lemma and_then_simps [simp]:
  "and_then (Inl e) f = Inl e" "and_then (Inr v) f = f v"
  by (simp_all add: and_then_def)

subsection \<open>Stripping\<close>

lemma isspace_space [simp]: "isspace CHR '' ''"
  by (simp add: isspace_def)

lemma not_isspace_comma [simp]: "\<not> isspace CHR '',''"
  by (simp add: isspace_def)

lemma set_str_strip: "set (str_strip s) \<subseteq> set s"
proof -
  have "set (str_strip s) \<subseteq> set (dropWhile isspace s)"
    unfolding str_strip_def using set_dropWhileD by fastforce
  also have "\<dots> \<subseteq> set s" using set_dropWhileD by fastforce
  finally show ?thesis .
qed

lemma dropWhile_fixed: "xs = [] \<or> \<not> P (hd xs) \<Longrightarrow> dropWhile P xs = xs"
  by (cases xs) auto

lemma str_strip_idem: "str_strip (str_strip s) = str_strip s"
proof -
  define t where "t = dropWhile isspace s"
  define u where "u = rev (dropWhile isspace (rev t))"
  have u: "str_strip s = u" by (simp add: str_strip_def t_def u_def)
  have t_ok: "t = [] \<or> \<not> isspace (hd t)"
    unfolding t_def by (metis hd_dropWhile)
  have "rev t = takeWhile isspace (rev t) @ dropWhile isspace (rev t)" by simp
  then have "t = u @ rev (takeWhile isspace (rev t))"
    unfolding u_def by (metis rev_append rev_rev_ident)
  then have "u = [] \<or> hd u = hd t" by (metis hd_append2)
  moreover have "u = [] \<or> t \<noteq> []" unfolding u_def by auto
  ultimately have "u = [] \<or> \<not> isspace (hd u)" using t_ok by metis
  then have 1: "dropWhile isspace u = u" by (rule dropWhile_fixed)
  have 2: "dropWhile isspace (rev u) = rev u"
    unfolding u_def by (simp add: dropWhile_idem)
  show ?thesis unfolding u by (simp add: str_strip_def[of u] 1 2)
qed

lemma str_strip_space_Cons [simp]: "str_strip (CHR '' '' # s) = str_strip s"
  by (simp add: str_strip_def)

subsection \<open>Splitting and joining\<close>

lemma str_split_nonempty [simp]: "str_split sep s \<noteq> []"
  by (induction s) (auto split: list.splits)

lemma str_split_no_sep: "p \<in> set (str_split sep s) \<Longrightarrow> sep \<notin> set p"
  by (induction s arbitrary: p) (auto split: if_splits list.splits)

lemma str_split_single: "sep \<notin> set a \<Longrightarrow> str_split sep a = [a]"
  by (induction a) auto

lemma str_split_append: "sep \<notin> set a \<Longrightarrow> str_split sep (a @ sep # b) = a # str_split sep b"
  by (induction a) auto

lemma str_split_join:
  "gs \<noteq> [] \<Longrightarrow> \<forall>g\<in>set gs. CHR '','' \<notin> set g \<Longrightarrow>
   str_split CHR '','' (str_join '', '' gs) = hd gs # map ((#) CHR '' '') (tl gs)"
proof (induction "'', ''" gs rule: str_join.induct)
  case 1
  then show ?case by simp
next
  case (2 x)
  then show ?case by (simp add: str_split_single)
next
  case (3 x y ys)
  have "str_split CHR '','' (str_join '', '' (x # y # ys)) =
        x # str_split CHR '','' (CHR '' '' # str_join '', '' (y # ys))"
    using 3(2,3) by (simp add: str_split_append)
  also have "\<dots> = x # (CHR '' '' # y) # map ((#) CHR '' '') ys"
    using 3 by simp
  finally show ?case by simp
qed

subsection \<open>The correction table\<close>

lemma fix_genre_correct: "fix_genre g = correct (str_strip g)"
  by (simp add: fix_genre_def correct_def dict_get_def Let_def)

lemma fix_genre_lookup:
  "fix_genre g = (case map_of GENRE_CORRECTIONS (str_strip g) of None \<Rightarrow> str_strip g | Some v \<Rightarrow> v)"
  by (simp add: fix_genre_def dict_get_def Let_def)

lemma correction_values:
  "map_of GENRE_CORRECTIONS k = Some v \<Longrightarrow> v \<in> snd ` set GENRE_CORRECTIONS"
  by (metis map_of_SomeD image_eqI snd_conv)

lemma correction_value_set:
  "snd ` set GENRE_CORRECTIONS =
   {''Horror'', ''Mystery'', ''Crime'', ''Comedy'', ''Action'', ''Drama'', ''Thriller'', ''Documentary''}"
  by (simp add: GENRE_CORRECTIONS_def insert_commute)

lemma str_strip_values:
  "str_strip ''Horror'' = ''Horror''" "str_strip ''Mystery'' = ''Mystery''"
  "str_strip ''Crime'' = ''Crime''" "str_strip ''Comedy'' = ''Comedy''"
  "str_strip ''Action'' = ''Action''" "str_strip ''Drama'' = ''Drama''"
  "str_strip ''Thriller'' = ''Thriller''" "str_strip ''Documentary'' = ''Documentary''"
  by (simp_all add: str_strip_def isspace_def)

lemma fix_genre_values:
  "fix_genre ''Horror'' = ''Horror''" "fix_genre ''Mystery'' = ''Mystery''"
  "fix_genre ''Crime'' = ''Crime''" "fix_genre ''Comedy'' = ''Comedy''"
  "fix_genre ''Action'' = ''Action''" "fix_genre ''Drama'' = ''Drama''"
  "fix_genre ''Thriller'' = ''Thriller''" "fix_genre ''Documentary'' = ''Documentary''"
  by (simp_all add: fix_genre_lookup str_strip_values GENRE_CORRECTIONS_def)

lemma fix_genre_value: "v \<in> snd ` set GENRE_CORRECTIONS \<Longrightarrow> fix_genre v = v"
  unfolding correction_value_set using fix_genre_values by blast

lemma str_strip_value: "v \<in> snd ` set GENRE_CORRECTIONS \<Longrightarrow> str_strip v = v"
  unfolding correction_value_set using str_strip_values by blast

lemma value_no_comma: "v \<in> snd ` set GENRE_CORRECTIONS \<Longrightarrow> CHR '','' \<notin> set v"
  unfolding correction_value_set by auto

lemma fix_genre_idem: "fix_genre (fix_genre g) = fix_genre g"
proof (cases "map_of GENRE_CORRECTIONS (str_strip g)")
  case None
  then have "fix_genre g = str_strip g" by (simp add: fix_genre_lookup)
  then show ?thesis using None by (simp add: fix_genre_lookup str_strip_idem)
next
  case (Some v)
  then have "fix_genre g = v" by (simp add: fix_genre_lookup)
  then show ?thesis using fix_genre_value[OF correction_values[OF Some]] by simp
qed

lemma fix_genre_stripped: "str_strip (fix_genre g) = fix_genre g"
proof (cases "map_of GENRE_CORRECTIONS (str_strip g)")
  case None
  then have "fix_genre g = str_strip g" by (simp add: fix_genre_lookup)
  then show ?thesis by (simp add: str_strip_idem)
next
  case (Some v)
  then have eq: "fix_genre g = v" by (simp add: fix_genre_lookup)
  have "v \<in> snd ` set GENRE_CORRECTIONS" by (rule correction_values[OF Some])
  then have "str_strip v = v" by (rule str_strip_value)
  then show ?thesis using eq by simp
qed

lemma fix_genre_no_comma: "CHR '','' \<notin> set g \<Longrightarrow> CHR '','' \<notin> set (fix_genre g)"
proof (cases "map_of GENRE_CORRECTIONS (str_strip g)")
  case None
  assume "CHR '','' \<notin> set g"
  moreover have "fix_genre g = str_strip g" using None by (simp add: fix_genre_lookup)
  ultimately show ?thesis using set_str_strip by fastforce
next
  case (Some v)
  then have "fix_genre g = v" by (simp add: fix_genre_lookup)
  then show ?thesis using value_no_comma[OF correction_values[OF Some]] by simp
qed

subsection \<open>The loop that removes duplicates\<close>

lemma first_occurrences_step:
  "map ((!) (x # xs)) (filter (\<lambda>i. (x # xs) ! i \<notin> S \<union> set (take i (x # xs))) [0..<length (x # xs)])
   = (if x \<in> S then [] else [x]) @
     map ((!) xs) (filter (\<lambda>i. xs ! i \<notin> insert x S \<union> set (take i xs)) [0..<length xs])"
proof -
  let ?P = "\<lambda>i. (x # xs) ! i \<notin> S \<union> set (take i (x # xs))"
  let ?Q = "\<lambda>i. xs ! i \<notin> insert x S \<union> set (take i xs)"
  have upt: "[0..<length (x # xs)] = 0 # map Suc [0..<length xs]"
    by (simp add: upt_conv_Cons map_Suc_upt del: upt_Suc)
  have PQ: "(?P \<circ> Suc) = ?Q" by (rule ext) auto
  have tl: "filter ?P (map Suc [0..<length xs]) = map Suc (filter ?Q [0..<length xs])"
    unfolding filter_map PQ ..
  have P0: "?P 0 = (x \<notin> S)" by simp
  have "filter ?P [0..<length (x # xs)] =
        (if x \<in> S then [] else [0]) @ map Suc (filter ?Q [0..<length xs])"
    unfolding upt filter.simps tl P0 by simp
  then show ?thesis by (simp add: o_def del: upt_Suc)
qed

lemma unique_loop_eq:
  "unique_loop xs seen acc =
   acc @ map ((!) xs) (filter (\<lambda>i. xs ! i \<notin> seen \<union> set (take i xs)) [0..<length xs])"
proof (induction xs arbitrary: seen acc)
  case Nil
  then show ?case by simp
next
  case (Cons x xs)
  show ?case
  proof (cases "x \<in> seen")
    case True
    then have "insert x seen = seen" by auto
    then show ?thesis unfolding first_occurrences_step using True Cons by simp
  next
    case False
    then show ?thesis unfolding first_occurrences_step using Cons by simp
  qed
qed

lemma unique_loop_first_occurrences: "unique_loop xs {} [] = first_occurrences xs"
  by (simp add: unique_loop_eq first_occurrences_def)

lemma set_unique_loop: "set (unique_loop xs seen acc) = set acc \<union> (set xs - seen)"
  by (induction xs arbitrary: seen acc) auto

lemma distinct_unique_loop:
  "distinct acc \<Longrightarrow> set acc \<subseteq> seen \<Longrightarrow> distinct (unique_loop xs seen acc)"
proof (induction xs arbitrary: seen acc)
  case Nil
  then show ?case by simp
next
  case (Cons x xs)
  show ?case
  proof (cases "x \<in> seen")
    case True
    then show ?thesis using Cons by simp
  next
    case False
    then have "distinct (acc @ [x])" "set (acc @ [x]) \<subseteq> insert x seen"
      using Cons.prems by auto
    then show ?thesis using False Cons.IH by simp
  qed
qed

lemma unique_loop_distinct_input:
  "distinct xs \<Longrightarrow> set xs \<inter> seen = {} \<Longrightarrow> unique_loop xs seen acc = acc @ xs"
  by (induction xs arbitrary: seen acc) auto

section \<open>Claims about the genre normalisation\<close>

lemma clean_genres_Str:
  "clean_genres (Str s) = Inr (unique_loop (map fix_genre (str_split CHR '','' s)) {} [])"
  by (simp add: clean_genres_def isna_def)

lemma clean_genres_Flt:
  "clean_genres (Flt x) = (if x = NaN then Inr [] else Inl AttributeError)"
  by (simp add: clean_genres_def isna_def)

lemma unique_loop_nonempty: "xs \<noteq> [] \<Longrightarrow> unique_loop xs {} [] \<noteq> []"
proof -
  assume "xs \<noteq> []"
  then have "set (unique_loop xs {} []) \<noteq> {}" by (simp add: set_unique_loop)
  then show ?thesis by auto
qed

lemma fix_genre_space_Cons [simp]: "fix_genre (CHR '' '' # g) = fix_genre g"
  by (simp add: fix_genre_def)

text \<open>
  Claim C2. For a missing genre field \<^verbatim>\<open>clean_genres\<close> returns the empty list, and
  for a string it returns what the specification describes: the pieces between commas,
  each trimmed and looked up in the correction table, only the first occurrence of each
  label kept, in order of first appearance. The result has no duplicates, and
  \<^verbatim>\<open>"Action, Horor, Action, Mistery"\<close> gives \<^verbatim>\<open>["Action", "Horror", "Mystery"]\<close>.
\<close>

theorem clean_genres_refines_spec:
  "clean_genres (Flt NaN) = Inr [] \<and>
   clean_genres (Str s) = Inr (normalize_genres_spec s) \<and>
   distinct (normalize_genres_spec s) \<and>
   clean_genres (Str ''Action, Horor, Action, Mistery'') = Inr [''Action'', ''Horror'', ''Mystery'']"
proof -
  have fc: "map fix_genre xs = map correct (map str_strip xs)" for xs
    by (simp add: fix_genre_correct)
  have eq: "clean_genres (Str s) = Inr (normalize_genres_spec s)" for s
    by (simp add: clean_genres_Str normalize_genres_spec_def fc unique_loop_first_occurrences)
  have "distinct (unique_loop (map fix_genre (str_split CHR '','' s)) {} [])"
    by (rule distinct_unique_loop) simp_all
  then have d: "distinct (normalize_genres_spec s)"
    using eq[of s] by (simp add: clean_genres_Str)
  have ex: "clean_genres (Str ''Action, Horor, Action, Mistery'') = Inr [''Action'', ''Horror'', ''Mystery'']"
    by (simp add: clean_genres_Str fix_genre_lookup GENRE_CORRECTIONS_def str_strip_def isspace_def)
  show ?thesis using eq d ex by (simp add: clean_genres_Flt)
qed

text \<open>
  Claim C6. The empty string gives the one label \<^verbatim>\<open>""\<close>; a piece that is empty or
  all whitespace, as after a trailing comma, is kept as the empty label; and the result is
  the empty list exactly when the field is missing.
\<close>

theorem blank_genre_token_kept:
  "clean_genres (Str '''') = Inr [''''] \<and>
   (clean_genres v = Inr [] \<longleftrightarrow> v = Flt NaN) \<and>
   (p \<in> set (str_split CHR '','' s) \<and> (\<forall>c\<in>set p. isspace c) \<longrightarrow>
      (\<exists>gs. clean_genres (Str s) = Inr gs \<and> '''' \<in> set gs))"
proof -
  have a: "clean_genres (Str '''') = Inr ['''']"
    by (simp add: clean_genres_Str fix_genre_lookup GENRE_CORRECTIONS_def str_strip_def)
  have b: "clean_genres v = Inr [] \<longleftrightarrow> v = Flt NaN"
  proof (cases v)
    case (Str s)
    then show ?thesis by (simp add: clean_genres_Str unique_loop_nonempty)
  next
    case (Flt x)
    then show ?thesis by (simp add: clean_genres_Flt)
  qed
  have c: "\<exists>gs. clean_genres (Str s) = Inr gs \<and> '''' \<in> set gs"
    if p: "p \<in> set (str_split CHR '','' s)" and sp: "\<forall>c\<in>set p. isspace c"
  proof -
    have dw: "dropWhile isspace p = []" using sp by (induction p) auto
    have "str_strip p = []" unfolding str_strip_def dw by simp
    then have "fix_genre p = []" by (simp add: fix_genre_lookup GENRE_CORRECTIONS_def)
    then have "[] \<in> set (map fix_genre (str_split CHR '','' s))" using p by force
    then show ?thesis by (simp add: clean_genres_Str set_unique_loop)
  qed
  show ?thesis using a b c by blast
qed

theorem blank_genre_token_kept_witness:
  "'' '' \<in> set (str_split CHR '','' ''Drama, '') \<and> list_all isspace '' '' \<and>
   (\<exists>gs. clean_genres (Str ''Drama, '') = Inr gs \<and> '''' \<in> set gs) \<and>
   clean_genres (Str ''Drama, '') = Inr [''Drama'', '''']"
proof -
  have 1: "'' '' \<in> set (str_split CHR '','' ''Drama, '')" by simp
  have 2: "\<forall>c\<in>set '' ''. isspace c" by simp
  have 3: "clean_genres (Str ''Drama, '') = Inr [''Drama'', '''']"
    by (simp add: clean_genres_Str fix_genre_lookup GENRE_CORRECTIONS_def str_strip_def isspace_def)
  from blank_genre_token_kept[of "Flt NaN" "'' ''" "''Drama, ''"] 1 2
  have "\<exists>gs. clean_genres (Str ''Drama, '') = Inr gs \<and> '''' \<in> set gs" by blast
  then show ?thesis using 1 3 by simp
qed

text \<open>
  Claim C7. On every label that the correction table maps to, \<^verbatim>\<open>fix_genre\<close> is
  idempotent, and it leaves such a label as it is.
\<close>

theorem fix_genre_idempotent_on_values:
  assumes "g \<in> snd ` set GENRE_CORRECTIONS"
  shows "fix_genre (fix_genre g) = fix_genre g \<and> fix_genre g = g"
proof -
  from assms have "g \<in> {''Horror'', ''Mystery'', ''Crime'', ''Comedy'', ''Action'', ''Drama'',
      ''Thriller'', ''Documentary''}"
    by (simp only: correction_value_set)
  then have canonical: "fix_genre g = g"
    using fix_genre_values by blast
  then have "fix_genre (fix_genre g) = fix_genre g" by simp
  then show ?thesis using canonical by simp
qed

theorem fix_genre_idempotent_on_values_witness:
  "''Horror'' \<in> snd ` set GENRE_CORRECTIONS \<and>
   fix_genre (fix_genre ''Horror'') = fix_genre ''Horror'' \<and> fix_genre ''Horror'' = ''Horror''"
proof -
  have m: "''Horror'' \<in> snd ` set GENRE_CORRECTIONS" by (simp add: correction_value_set)
  show ?thesis using m fix_genre_idempotent_on_values[OF m] by simp
qed

text \<open>
  Claim C10. Normalising the labels of a result joined with \<^verbatim>\<open>", "\<close> gives the same
  result again; every label of a result is trimmed and corrected, and no label occurs
  twice.
\<close>

theorem clean_genres_idempotent:
  assumes "clean_genres (Str s) = Inr gs"
  shows "clean_genres (Str (str_join '', '' gs)) = Inr gs \<and> distinct gs \<and>
         (\<forall>g\<in>set gs. str_strip g = g \<and> fix_genre g = g)"
proof -
  let ?pieces = "str_split CHR '','' s"
  have gs: "gs = unique_loop (map fix_genre ?pieces) {} []"
    using assms by (simp add: clean_genres_Str)
  have set_gs: "set gs = fix_genre ` set ?pieces" by (simp add: gs set_unique_loop)
  have d: "distinct gs" unfolding gs by (rule distinct_unique_loop) simp_all
  have ne: "gs \<noteq> []" unfolding gs by (rule unique_loop_nonempty) simp
  have fixed: "fix_genre g = g" and stripped: "str_strip g = g" and comma: "CHR '','' \<notin> set g"
    if "g \<in> set gs" for g
  proof -
    from that obtain p where p: "p \<in> set ?pieces" and g: "g = fix_genre p"
      unfolding set_gs by blast
    show "fix_genre g = g" unfolding g by (rule fix_genre_idem)
    show "str_strip g = g" unfolding g by (rule fix_genre_stripped)
    show "CHR '','' \<notin> set g" unfolding g
      by (rule fix_genre_no_comma) (rule str_split_no_sep[OF p])
  qed
  have split: "str_split CHR '','' (str_join '', '' gs) = hd gs # map ((#) CHR '' '') (tl gs)"
    by (rule str_split_join[OF ne]) (simp add: comma)
  have "map fix_genre (hd gs # map ((#) CHR '' '') (tl gs)) = map fix_genre gs"
    using ne by (cases gs) (simp_all add: o_def)
  also have "\<dots> = gs" using fixed by (simp add: map_idI)
  finally have "map fix_genre (str_split CHR '','' (str_join '', '' gs)) = gs"
    unfolding split .
  then have "clean_genres (Str (str_join '', '' gs)) = Inr gs"
    using d by (simp add: clean_genres_Str unique_loop_distinct_input)
  then show ?thesis using d fixed stripped by simp
qed

theorem clean_genres_idempotent_witness:
  "clean_genres (Str ''Action, Horor, Action, Mistery'') = Inr [''Action'', ''Horror'', ''Mystery''] \<and>
   clean_genres (Str ''Action, Horror, Mystery'') = Inr [''Action'', ''Horror'', ''Mystery'']"
proof -
  have h: "clean_genres (Str ''Action, Horor, Action, Mistery'') = Inr [''Action'', ''Horror'', ''Mystery'']"
    by (simp add: clean_genres_Str fix_genre_lookup GENRE_CORRECTIONS_def str_strip_def isspace_def)
  show ?thesis using h clean_genres_idempotent[OF h] by simp
qed

section \<open>Properties of the transformation\<close>

subsection \<open>Columns\<close>

lemma and_then_eq_Inr: "and_then m f = Inr r \<longleftrightarrow> (\<exists>v. m = Inr v \<and> f v = Inr r)"
  by (cases m) simp_all

lemma getitem_eq_Inr: "getitem df c = Inr col \<longleftrightarrow> map_of (columns df) c = Some col"
  by (simp add: getitem_def split: option.splits)

lemma getitem_setitem:
  "getitem (setitem df c v) c' = (if c' = c then Inr v else getitem df c')"
  by (simp add: getitem_def setitem_def update_conv')

lemma nrows_setitem [simp]: "nrows (setitem df c v) = nrows df"
  by (simp add: setitem_def)

lemma map_of_setitem [simp]:
  "map_of (columns (setitem df c v)) = (map_of (columns df))(c \<mapsto> v)"
  by (simp add: setitem_def update_conv')

lemma names_setitem [simp]:
  "fst ` set (columns (setitem df c v)) = insert c (fst ` set (columns df))"
  by (simp add: setitem_def dom_update)

lemma drop_column_eq_Inr:
  "drop_column df c = Inr df' \<longleftrightarrow>
   c \<in> fst ` set (columns df) \<and> df' = df\<lparr>columns := AList.delete c (columns df)\<rparr>"
  by (auto simp add: drop_column_def)

lemma coerce_numeric_Inr:
  assumes "coerce_numeric parse df = Inr df'"
  obtains box_office budget duration release_year where
    "map_of (columns df) ''box_office'' = Some box_office"
    "map_of (columns df) ''budget'' = Some budget"
    "map_of (columns df) ''duration'' = Some duration"
    "map_of (columns df) ''release_year'' = Some release_year"
    "nrows df' = nrows df"
    "map_of (columns df') = (map_of (columns df))
       (''box_office'' \<mapsto> to_numeric parse (series_replace (Str ''unknown'') (Flt NaN) box_office),
        ''budget'' \<mapsto> to_numeric parse budget,
        ''duration'' \<mapsto> to_numeric parse duration,
        ''release_year'' \<mapsto> to_numeric parse release_year)"
  using assms unfolding coerce_numeric_def Let_def
  by (auto simp add: and_then_eq_Inr getitem_eq_Inr fun_upd_twist split: if_splits)


lemma series_str_strip_eq_Inr:
  "series_str_strip col = Inr col' \<longleftrightarrow>
   (col = [] \<or> list_ex is_str col) \<and> col' = strip_cells col"
  by (auto simp add: series_str_strip_def)

lemma strip_text_Inr:
  assumes "strip_text df = Inr df'"
  obtains title director language country where
    "map_of (columns df) ''title'' = Some title"
    "map_of (columns df) ''director'' = Some director"
    "map_of (columns df) ''language'' = Some language"
    "map_of (columns df) ''country'' = Some country"
    "nrows df' = nrows df"
    "map_of (columns df') = (map_of (columns df))
       (''title'' \<mapsto> strip_cells title,
        ''director'' \<mapsto> strip_cells director,
        ''language'' \<mapsto> strip_cells language,
        ''country'' \<mapsto> strip_cells country)"
  using assms unfolding strip_text_def Let_def
  by (auto simp add: and_then_eq_Inr getitem_eq_Inr series_str_strip_eq_Inr split: if_splits)

lemma add_roi_Inr:
  assumes "add_roi df = Inr df'"
  obtains box_office budget xs bs where
    "map_of (columns df) ''box_office'' = Some box_office"
    "map_of (columns df) ''budget'' = Some budget"
    "series_values box_office = Inr xs"
    "series_values budget = Inr bs"
    "nrows df' = nrows df"
    "map_of (columns df') = (map_of (columns df))(''roi'' \<mapsto> map Flt (map2 roi_value xs bs))"
  using assms unfolding add_roi_def
  by (auto simp add: and_then_eq_Inr getitem_eq_Inr)

lemma series_values_to_numeric:
  "series_values (to_numeric parse col) = Inr (map (numeric_value parse) col)"
  by (induction col) (simp_all add: to_numeric_def)

lemma series_values_Inr: "series_values col = Inr xs \<Longrightarrow> col = map Flt xs"
proof (induction col arbitrary: xs)
  case Nil
  then show ?case by simp
next
  case (Cons v vs)
  then show ?case by (cases v) (auto split: sum.splits)
qed

subsection \<open>The loop over the rows\<close>

lemma row_get_eq_Inr: "row_get row c = Inr v \<longleftrightarrow> map_of row c = Some v"
  by (simp add: row_get_def split: option.splits)

lemma append_genres_eq:
  "row_get row ''title'' = Inr t \<Longrightarrow>
   append_genres row genres rows = Inr (rows @ map (Pair t) genres)"
  by (induction genres arbitrary: rows) simp_all

lemma genre_rows_ok:
  assumes "list_all2 (\<lambda>row tg. row_get row ''title'' = Inr (fst tg) \<and>
                               row_get row ''genre'' = Inr (snd tg)) rs tgs"
    and "map clean_genres (map snd tgs) = map Inr gss"
  shows "genre_rows rs acc =
         Inr (acc @ concat (map2 (\<lambda>t gs. map (Pair t) gs) (map fst tgs) gss))"
  using assms
proof (induction rs tgs arbitrary: acc gss rule: list_all2_induct)
  case Nil
  then show ?case by simp
next
  case (Cons row rs tg tgs)
  from Cons.prems obtain gs gss' where gss: "gss = gs # gss'"
    and gs: "clean_genres (snd tg) = Inr gs"
    and rest: "map clean_genres (map snd tgs) = map Inr gss'"
    by (cases gss) auto
  show ?case
    using Cons.hyps(1) gs Cons.IH[OF rest]
    by (simp add: gss append_genres_eq)
qed


lemma frame_ok_length:
  "frame_ok df \<Longrightarrow> map_of (columns df) c = Some col \<Longrightarrow> length col = nrows df"
  by (auto simp add: frame_ok_def list_all_iff dest: map_of_SomeD)

lemma map_of_row:
  "map_of (map (\<lambda>col. (fst col, snd col ! i)) cols) c = map_option (\<lambda>col. col ! i) (map_of cols c)"
  by (induction cols) auto

lemma iterrows_rows:
  assumes "map_of (columns df) ''title'' = Some T" "map_of (columns df) ''genre'' = Some G"
    and "length T = nrows df" "length G = nrows df"
  shows "list_all2 (\<lambda>row tg. row_get row ''title'' = Inr (fst tg) \<and>
                             row_get row ''genre'' = Inr (snd tg)) (iterrows df) (zip T G)"
  using assms
  by (simp add: list_all2_conv_all_nth iterrows_def row_get_eq_Inr map_of_row)


subsection \<open>What a run that returns has done\<close>

lemma transform_stages:
  assumes "transform parse df = Inr (movies, links)"
  obtains df1 df2 df3 rows counts where
    "coerce_numeric parse df = Inr df1"
    "strip_text df1 = Inr df2"
    "add_roi df2 = Inr df3"
    "drop_column df3 ''genre'' = Inr movies"
    "genre_rows (iterrows df3) [] = Inr rows"
    "links = DataFrame rows"
    "summary movies links = Inr counts"
  using assms unfolding transform_def Let_def
  by (auto simp add: and_then_eq_Inr)


lemma transform_movies:
  assumes "transform parse df = Inr (movies, links)"
  obtains title release_year director language country duration budget box_office genre where
    "map_of (columns df) ''title'' = Some title"
    "map_of (columns df) ''release_year'' = Some release_year"
    "map_of (columns df) ''director'' = Some director"
    "map_of (columns df) ''language'' = Some language"
    "map_of (columns df) ''country'' = Some country"
    "map_of (columns df) ''duration'' = Some duration"
    "map_of (columns df) ''budget'' = Some budget"
    "map_of (columns df) ''box_office'' = Some box_office"
    "map_of (columns df) ''genre'' = Some genre"
    "nrows movies = nrows df"
    "map_of (columns movies) = (map_of (columns df))
       (''box_office'' \<mapsto> to_numeric parse (series_replace (Str ''unknown'') (Flt NaN) box_office),
        ''budget'' \<mapsto> to_numeric parse budget,
        ''duration'' \<mapsto> to_numeric parse duration,
        ''release_year'' \<mapsto> to_numeric parse release_year,
        ''title'' \<mapsto> strip_cells title,
        ''director'' \<mapsto> strip_cells director,
        ''language'' \<mapsto> strip_cells language,
        ''country'' \<mapsto> strip_cells country,
        ''roi'' \<mapsto> map Flt (map2 roi_value
            (map (numeric_value parse) (series_replace (Str ''unknown'') (Flt NaN) box_office))
            (map (numeric_value parse) budget)),
        ''genre'' := None)"
proof -
  from assms obtain df1 df2 df3 where
    s1: "coerce_numeric parse df = Inr df1" and s2: "strip_text df1 = Inr df2" and
    s3: "add_roi df2 = Inr df3" and s4: "drop_column df3 ''genre'' = Inr movies"
    by (rule transform_stages)
  from s1 obtain box_office budget duration release_year where
    c1: "map_of (columns df) ''box_office'' = Some box_office"
        "map_of (columns df) ''budget'' = Some budget"
        "map_of (columns df) ''duration'' = Some duration"
        "map_of (columns df) ''release_year'' = Some release_year" and
    n1: "nrows df1 = nrows df" and
    m1: "map_of (columns df1) = (map_of (columns df))
       (''box_office'' \<mapsto> to_numeric parse (series_replace (Str ''unknown'') (Flt NaN) box_office),
        ''budget'' \<mapsto> to_numeric parse budget,
        ''duration'' \<mapsto> to_numeric parse duration,
        ''release_year'' \<mapsto> to_numeric parse release_year)"
    by (rule coerce_numeric_Inr)
  from s2 obtain title director language country where
    c2': "map_of (columns df1) ''title'' = Some title"
        "map_of (columns df1) ''director'' = Some director"
        "map_of (columns df1) ''language'' = Some language"
        "map_of (columns df1) ''country'' = Some country" and
    n2: "nrows df2 = nrows df1" and
    m2: "map_of (columns df2) = (map_of (columns df1))
       (''title'' \<mapsto> strip_cells title,
        ''director'' \<mapsto> strip_cells director,
        ''language'' \<mapsto> strip_cells language,
        ''country'' \<mapsto> strip_cells country)"
    by (rule strip_text_Inr)
  have c2: "map_of (columns df) ''title'' = Some title"
        "map_of (columns df) ''director'' = Some director"
        "map_of (columns df) ''language'' = Some language"
        "map_of (columns df) ''country'' = Some country"
    using c2' by (simp_all add: m1)
  from s3 obtain box budget' xs bs where
    c3: "map_of (columns df2) ''box_office'' = Some box"
        "map_of (columns df2) ''budget'' = Some budget'" and
    v3: "series_values box = Inr xs" "series_values budget' = Inr bs" and
    n3: "nrows df3 = nrows df2" and
    m3: "map_of (columns df3) = (map_of (columns df2))(''roi'' \<mapsto> map Flt (map2 roi_value xs bs))"
    by (rule add_roi_Inr)
  have box: "box = to_numeric parse (series_replace (Str ''unknown'') (Flt NaN) box_office)"
    and bud: "budget' = to_numeric parse budget"
    using c3 by (simp_all add: m2 m1)
  have xs: "xs = map (numeric_value parse) (series_replace (Str ''unknown'') (Flt NaN) box_office)"
    and bs: "bs = map (numeric_value parse) budget"
    using v3 by (simp_all add: box bud series_values_to_numeric)
  from s4 have g: "''genre'' \<in> fst ` set (columns df3)"
    and mv: "movies = df3\<lparr>columns := AList.delete ''genre'' (columns df3)\<rparr>"
    by (simp_all add: drop_column_eq_Inr)
  from g obtain genre' where "map_of (columns df3) ''genre'' = Some genre'"
    by (metis domD dom_map_of_conv_image_fst)
  then have c4: "map_of (columns df) ''genre'' = Some genre'"
    by (simp add: m3 m2 m1)
  have n: "nrows movies = nrows df" by (simp add: mv n3 n2 n1)
  have m: "map_of (columns movies) = (map_of (columns df3))(''genre'' := None)"
    by (simp add: mv delete_conv')
  show ?thesis
    by (rule that[OF c2(1) c1(4) c2(2,3,4) c1(3,2,1) c4 n])
       (simp add: m m3 m2 m1 xs bs)
qed


section \<open>Evaluating the examples\<close>

lemmas transform_eval = and_then_def getitem_def setitem_def drop_column_def series_replace_def
  strip_cell_def strip_cells_def series_str_strip_def is_str_def numeric_value_def to_numeric_def iterrows_def row_get_def
  DataFrame_def roi_value_def coerce_numeric_def strip_text_def add_roi_def summary_def
  transform_def parse_decimal_def clean_genres_def isna_def fix_genre_def
  dict_get_def GENRE_CORRECTIONS_def str_strip_def isspace_def round2_def rint_def Let_def
  upt_conv_Cons

lemma transform_example:
  "transform parse_decimal example_frame = Inr (example_movies, example_links)"
  by (simp add: example_frame_def example_movies_def example_links_def transform_eval)

lemma frame_ok_example: "frame_ok example_frame"
  by (simp add: frame_ok_def example_frame_def)

subsection \<open>Lists of genre rows\<close>






lemma coerce_numeric_returns:
  assumes "set [''budget'', ''box_office'', ''duration'', ''release_year''] \<subseteq> fst ` set (columns df)"
  shows "\<exists>df'. coerce_numeric parse df = Inr df' \<and> nrows df' = nrows df"
proof -
  have "\<exists>col. getitem df c = Inr col"
    if "c \<in> set [''budget'', ''box_office'', ''duration'', ''release_year'']" for c
  proof -
    from that assms have "c \<in> dom (map_of (columns df))"
      by (auto simp add: dom_map_of_conv_image_fst)
    then show ?thesis by (auto simp add: getitem_eq_Inr)
  qed
  then obtain bu bo du ry where
    "getitem df ''budget'' = Inr bu" "getitem df ''box_office'' = Inr bo"
    "getitem df ''duration'' = Inr du" "getitem df ''release_year'' = Inr ry"
    by (metis list.set_intros(1,2))
  then show ?thesis
    by (simp add: coerce_numeric_def Let_def getitem_setitem)
qed




subsection \<open>The columns of the movies table\<close>

lemma transform_nrows:
  assumes "transform parse df = Inr (movies, links)"
  shows "nrows movies = nrows df"
  using assms by (rule transform_movies)






lemma transform_other_column:
  assumes "transform parse df = Inr (movies, links)"
    and "c \<notin> set [''title'', ''release_year'', ''director'', ''language'', ''country'',
                   ''duration'', ''budget'', ''box_office'', ''genre'', ''roi'']"
  shows "getitem movies c = getitem df c"
proof -
  from assms(1) obtain title release_year director language country duration budget box_office genre
    where c: "map_of (columns df) ''title'' = Some title"
      "map_of (columns df) ''release_year'' = Some release_year"
      "map_of (columns df) ''director'' = Some director"
      "map_of (columns df) ''language'' = Some language"
      "map_of (columns df) ''country'' = Some country"
      "map_of (columns df) ''duration'' = Some duration"
      "map_of (columns df) ''budget'' = Some budget"
      "map_of (columns df) ''box_office'' = Some box_office"
      "map_of (columns df) ''genre'' = Some genre"
    and n: "nrows movies = nrows df"
    and m: "map_of (columns movies) = (map_of (columns df))
       (''box_office'' \<mapsto> to_numeric parse (series_replace (Str ''unknown'') (Flt NaN) box_office),
        ''budget'' \<mapsto> to_numeric parse budget,
        ''duration'' \<mapsto> to_numeric parse duration,
        ''release_year'' \<mapsto> to_numeric parse release_year,
        ''title'' \<mapsto> strip_cells title,
        ''director'' \<mapsto> strip_cells director,
        ''language'' \<mapsto> strip_cells language,
        ''country'' \<mapsto> strip_cells country,
        ''roi'' \<mapsto> map Flt (map2 roi_value
            (map (numeric_value parse) (series_replace (Str ''unknown'') (Flt NaN) box_office))
            (map (numeric_value parse) budget)),
        ''genre'' := None)"
    by (rule transform_movies)
  show ?thesis using assms(2) by (simp add: getitem_def m)
qed

lemma transform_column_names:
  assumes "transform parse df = Inr (movies, links)"
  shows "fst ` set (columns movies) = insert ''roi'' (fst ` set (columns df)) - {''genre''}"
proof -
  from assms(1) obtain title release_year director language country duration budget box_office genre
    where c: "map_of (columns df) ''title'' = Some title"
      "map_of (columns df) ''release_year'' = Some release_year"
      "map_of (columns df) ''director'' = Some director"
      "map_of (columns df) ''language'' = Some language"
      "map_of (columns df) ''country'' = Some country"
      "map_of (columns df) ''duration'' = Some duration"
      "map_of (columns df) ''budget'' = Some budget"
      "map_of (columns df) ''box_office'' = Some box_office"
      "map_of (columns df) ''genre'' = Some genre"
    and n: "nrows movies = nrows df"
    and m: "map_of (columns movies) = (map_of (columns df))
       (''box_office'' \<mapsto> to_numeric parse (series_replace (Str ''unknown'') (Flt NaN) box_office),
        ''budget'' \<mapsto> to_numeric parse budget,
        ''duration'' \<mapsto> to_numeric parse duration,
        ''release_year'' \<mapsto> to_numeric parse release_year,
        ''title'' \<mapsto> strip_cells title,
        ''director'' \<mapsto> strip_cells director,
        ''language'' \<mapsto> strip_cells language,
        ''country'' \<mapsto> strip_cells country,
        ''roi'' \<mapsto> map Flt (map2 roi_value
            (map (numeric_value parse) (series_replace (Str ''unknown'') (Flt NaN) box_office))
            (map (numeric_value parse) budget)),
        ''genre'' := None)"
    by (rule transform_movies)
  have "k \<in> dom (map_of (columns df))"
    if "k \<in> set [''title'', ''release_year'', ''director'', ''language'', ''country'',
                   ''duration'', ''budget'', ''box_office'', ''genre'']" for k
    using that c by auto
  then have "dom (map_of (columns movies)) = insert ''roi'' (dom (map_of (columns df))) - {''genre''}"
    unfolding m by (simp add: insert_absorb)
  then show ?thesis by (simp add: dom_map_of_conv_image_fst)
qed





section \<open>When the transformation returns\<close>

lemma getitem_present:
  "c \<in> fst ` set (columns df) \<Longrightarrow> \<exists>col. map_of (columns df) c = Some col"
  by (metis domD dom_map_of_conv_image_fst)

lemma strip_text_returns:
  assumes "map_of (columns df) ''title'' = Some a" "a = [] \<or> list_ex is_str a"
    and "map_of (columns df) ''director'' = Some b" "b = [] \<or> list_ex is_str b"
    and "map_of (columns df) ''language'' = Some c" "c = [] \<or> list_ex is_str c"
    and "map_of (columns df) ''country'' = Some d" "d = [] \<or> list_ex is_str d"
  shows "\<exists>df'. strip_text df = Inr df'"
proof -
  have s: "series_str_strip a = Inr (strip_cells a)" "series_str_strip b = Inr (strip_cells b)"
    "series_str_strip c = Inr (strip_cells c)" "series_str_strip d = Inr (strip_cells d)"
    using assms(2,4,6,8) by (simp_all add: series_str_strip_eq_Inr)
  have g: "getitem df ''title'' = Inr a" "getitem df ''director'' = Inr b"
    "getitem df ''language'' = Inr c" "getitem df ''country'' = Inr d"
    using assms(1,3,5,7) by (simp_all add: getitem_eq_Inr)
  show ?thesis
    by (simp add: strip_text_def Let_def getitem_setitem g s)
qed

lemma add_roi_returns:
  assumes "map_of (columns df) ''box_office'' = Some (to_numeric parse a)"
    and "map_of (columns df) ''budget'' = Some (to_numeric parse b)"
  shows "\<exists>df'. add_roi df = Inr df'"
  using assms
  by (simp add: add_roi_def getitem_def series_values_to_numeric)

lemma clean_genres_returns:
  "list_all (\<lambda>v. is_str v \<or> isna v) genre \<Longrightarrow> \<exists>gss. map clean_genres genre = map Inr gss"
proof (induction genre)
  case Nil
  then show ?case by simp
next
  case (Cons v vs)
  then obtain gss where gss: "map clean_genres vs = map Inr gss" by auto
  from Cons.prems have "is_str v \<or> isna v" by simp
  then obtain gs where "clean_genres v = Inr gs"
    by (cases v) (auto simp add: is_str_def isna_def clean_genres_Str clean_genres_Flt)
  then have "map clean_genres (v # vs) = map Inr (gs # gss)" using gss by simp
  then show ?case by blast
qed

lemma some_genre_row:
  assumes "length ts = length gss" "length genre = length gss"
    and "map clean_genres genre = map Inr gss" and "list_ex is_str genre"
  shows "concat (map2 (\<lambda>t gs. map (Pair t) gs) ts gss) \<noteq> []"
proof -
  from assms(4) obtain i where i: "i < length genre" "is_str (genre ! i)"
    by (auto simp add: list_ex_iff in_set_conv_nth)
  then obtain s where s: "genre ! i = Str s" by (cases "genre ! i") (auto simp add: is_str_def)
  have "clean_genres (genre ! i) = Inr (gss ! i)"
    using assms(2,3) i(1) by (metis nth_map)
  then have "gss ! i = unique_loop (map fix_genre (str_split CHR '','' s)) {} []"
    using s by (simp add: clean_genres_Str)
  then have "gss ! i \<noteq> []" by (simp add: unique_loop_nonempty)
  then have ne: "map (Pair (ts ! i)) (gss ! i) \<noteq> []" by simp
  have "(ts ! i, gss ! i) \<in> set (zip ts gss)"
    using assms(1,2) i(1) by (metis in_set_zip fst_conv snd_conv)
  then have "map (Pair (ts ! i)) (gss ! i) \<in> set (map2 (\<lambda>t gs. map (Pair t) gs) ts gss)"
    by force
  then show ?thesis using ne by (metis concat_eq_Nil_conv)
qed

lemma transform_run:
  assumes ok: "frame_ok df"
    and cols: "set [''title'', ''release_year'', ''director'', ''language'', ''country'',
                    ''duration'', ''budget'', ''box_office'', ''genre''] \<subseteq> fst ` set (columns df)"
    and strs: "\<forall>c\<in>set [''title'', ''director'', ''language'', ''country''].
                 \<forall>col. getitem df c = Inr col \<longrightarrow> col = [] \<or> list_ex is_str col"
    and genre: "getitem df ''genre'' = Inr genre" "list_all (\<lambda>v. is_str v \<or> isna v) genre"
  shows "\<exists>movies title gss.
           getitem df ''title'' = Inr title \<and> length title = length gss \<and>
           length genre = length gss \<and>
           map clean_genres genre = map Inr gss \<and> nrows movies = nrows df \<and>
           transform parse df =
             (if concat (map2 (\<lambda>t gs. map (Pair t) gs) (strip_cells title) gss) = []
              then Inl (KeyError ''genre'')
              else Inr (movies,
                        DataFrame (concat (map2 (\<lambda>t gs. map (Pair t) gs) (strip_cells title) gss))))"
proof -
  have present: "\<exists>col. map_of (columns df) c = Some col"
    if "c \<in> set [''title'', ''release_year'', ''director'', ''language'', ''country'',
                   ''duration'', ''budget'', ''box_office'', ''genre'']" for c
    using that cols by (intro getitem_present) blast
  from present[of "''title''"] obtain a where a: "map_of (columns df) ''title'' = Some a" by auto
  from present[of "''director''"] obtain b where b: "map_of (columns df) ''director'' = Some b" by auto
  from present[of "''language''"] obtain c where c: "map_of (columns df) ''language'' = Some c" by auto
  from present[of "''country''"] obtain d where d: "map_of (columns df) ''country'' = Some d" by auto
  have str: "a = [] \<or> list_ex is_str a" "b = [] \<or> list_ex is_str b"
    "c = [] \<or> list_ex is_str c" "d = [] \<or> list_ex is_str d"
    using strs a b c d by (simp_all add: getitem_eq_Inr)
  have g: "map_of (columns df) ''genre'' = Some genre" using genre(1) by (simp add: getitem_eq_Inr)
  have "set [''budget'', ''box_office'', ''duration'', ''release_year''] \<subseteq> fst ` set (columns df)"
    using cols by auto
  from coerce_numeric_returns[OF this] obtain df1 where s1: "coerce_numeric parse df = Inr df1"
    by blast
  from s1 obtain box_office budget duration release_year where
    n1: "nrows df1 = nrows df" and
    m1: "map_of (columns df1) = (map_of (columns df))
       (''box_office'' \<mapsto> to_numeric parse (series_replace (Str ''unknown'') (Flt NaN) box_office),
        ''budget'' \<mapsto> to_numeric parse budget,
        ''duration'' \<mapsto> to_numeric parse duration,
        ''release_year'' \<mapsto> to_numeric parse release_year)"
    by (rule coerce_numeric_Inr)
  have "\<exists>df2. strip_text df1 = Inr df2"
    by (rule strip_text_returns[of df1 a b c d]) (simp_all add: m1 a b c d str)
  then obtain df2 where s2: "strip_text df1 = Inr df2" ..
  from s2 obtain title director language country where
    c2: "map_of (columns df1) ''title'' = Some title" and
    n2: "nrows df2 = nrows df1" and
    m2: "map_of (columns df2) = (map_of (columns df1))
       (''title'' \<mapsto> strip_cells title,
        ''director'' \<mapsto> strip_cells director,
        ''language'' \<mapsto> strip_cells language,
        ''country'' \<mapsto> strip_cells country)"
    by (rule strip_text_Inr)
  have title: "title = a" using c2 a by (simp add: m1)
  have "\<exists>df3. add_roi df2 = Inr df3"
    by (rule add_roi_returns[of _ parse "series_replace (Str ''unknown'') (Flt NaN) box_office" budget])
       (simp_all add: m2 m1)
  then obtain df3 where s3: "add_roi df2 = Inr df3" ..
  from s3 obtain xs bs where n3: "nrows df3 = nrows df2" and
    m3: "map_of (columns df3) = (map_of (columns df2))(''roi'' \<mapsto> map Flt (map2 roi_value xs bs))"
    by (rule add_roi_Inr)
  have T: "map_of (columns df3) ''title'' = Some (strip_cells a)"
    and G: "map_of (columns df3) ''genre'' = Some genre"
    by (simp_all add: m3 m2 m1 title g)
  have len: "length (strip_cells a) = nrows df3" "length genre = nrows df3"
    using ok a g by (simp_all add: strip_cells_def frame_ok_length n3 n2 n1)
  define movies where "movies = df3\<lparr>columns := AList.delete ''genre'' (columns df3)\<rparr>"
  have "''genre'' \<in> fst ` set (columns df3)"
    using G by (metis domI dom_map_of_conv_image_fst)
  then have s4: "drop_column df3 ''genre'' = Inr movies"
    by (simp add: drop_column_eq_Inr movies_def)
  from clean_genres_returns[OF genre(2)] obtain gss where
    gss: "map clean_genres genre = map Inr gss" ..
  then have lg: "length genre = length gss" by (metis length_map)
  define rows where "rows = concat (map2 (\<lambda>t gs. map (Pair t) gs) (strip_cells a) gss)"
  have rows: "list_all2 (\<lambda>row tg. row_get row ''title'' = Inr (fst tg) \<and>
                             row_get row ''genre'' = Inr (snd tg))
                (iterrows df3) (zip (strip_cells a) genre)"
    by (rule iterrows_rows[OF T G len])
  have z: "map fst (zip (strip_cells a) genre) = strip_cells a"
    "map snd (zip (strip_cells a) genre) = genre"
    using len by simp_all
  have s5: "genre_rows (iterrows df3) [] = Inr rows"
    using genre_rows_ok[OF rows, of gss "[]"] gss unfolding z rows_def by simp
  have mm: "map_of (columns movies) = (map_of (columns df3))(''genre'' := None)"
    by (simp add: movies_def delete_conv')
  have t: "transform parse df =
      (if rows = [] then Inl (KeyError ''genre'') else Inr (movies, DataFrame rows))"
  proof (cases "rows = []")
    case True
    have "summary movies (DataFrame []) = Inl (KeyError ''genre'')"
      by (simp add: summary_def getitem_def mm m3 m2 m1 DataFrame_def)
    then show ?thesis using True by (simp add: transform_def Let_def s1 s2 s3 s4 s5)
  next
    case False
    then have "\<exists>counts. summary movies (DataFrame rows) = Inr counts"
      by (simp add: summary_def getitem_def mm m3 m2 m1 DataFrame_def)
    then obtain counts where "summary movies (DataFrame rows) = Inr counts" ..
    then show ?thesis using False by (simp add: transform_def Let_def s1 s2 s3 s4 s5)
  qed
  have "getitem df ''title'' = Inr a" using a by (simp add: getitem_eq_Inr)
  moreover have "length a = length gss" using len lg by (simp add: strip_cells_def)
  moreover have "nrows movies = nrows df" by (simp add: movies_def n3 n2 n1)
  ultimately show ?thesis using t lg gss unfolding rows_def by blast
qed

text \<open>
  When \<^verbatim>\<open>transform\<close> returns. On a table with the nine columns, text columns that
  hold a string, and genre cells that are strings or missing, \<^verbatim>\<open>transform\<close> returns its
  two tables, with one cleaned record for each input record, as soon as one genre cell is
  a string.
\<close>

theorem transform_returns:
  assumes "frame_ok df"
    and "set [''title'', ''release_year'', ''director'', ''language'', ''country'',
              ''duration'', ''budget'', ''box_office'', ''genre''] \<subseteq> fst ` set (columns df)"
    and "\<forall>c\<in>set [''title'', ''director'', ''language'', ''country''].
           \<forall>col. getitem df c = Inr col \<longrightarrow> col = [] \<or> list_ex is_str col"
    and "getitem df ''genre'' = Inr genre" and "list_all (\<lambda>v. is_str v \<or> isna v) genre"
    and "list_ex is_str genre"
  shows "\<exists>movies links. transform parse df = Inr (movies, links) \<and> nrows movies = nrows df"
proof -
  from transform_run[OF assms(1-5), of parse] obtain movies title gss where
    len: "length title = length gss" "length genre = length gss"
    and gss: "map clean_genres genre = map Inr gss" and n: "nrows movies = nrows df"
    and t: "transform parse df =
             (if concat (map2 (\<lambda>t gs. map (Pair t) gs) (strip_cells title) gss) = []
              then Inl (KeyError ''genre'')
              else Inr (movies,
                        DataFrame (concat (map2 (\<lambda>t gs. map (Pair t) gs) (strip_cells title) gss))))"
    by blast
  have "concat (map2 (\<lambda>t gs. map (Pair t) gs) (strip_cells title) gss) \<noteq> []"
    by (rule some_genre_row[OF _ len(2) gss assms(6)]) (simp add: strip_cells_def len)
  then show ?thesis using t n by auto
qed

theorem transform_returns_witness:
  "frame_ok example_frame \<and>
   getitem example_frame ''genre'' = Inr [Str ''Action, Akcija'', Str ''Sci-Fi, Horor''] \<and>
   (\<exists>movies links. transform parse_decimal example_frame = Inr (movies, links) \<and>
      nrows movies = nrows example_frame)"
proof -
  have g: "getitem example_frame ''genre'' = Inr [Str ''Action, Akcija'', Str ''Sci-Fi, Horor'']"
    by (simp add: example_frame_def getitem_def)
  have "\<exists>movies links. transform parse_decimal example_frame = Inr (movies, links) \<and>
      nrows movies = nrows example_frame"
    by (rule transform_returns[OF frame_ok_example _ _ g])
       (auto simp add: example_frame_def getitem_def is_str_def isna_def)
  then show ?thesis using frame_ok_example g by simp
qed

text \<open>
  Claim C4 says that every input gives one cleaned record for each input record, whatever
  the genre field holds. The code does not do so on a table in which every genre cell is
  missing, a table with no rows among them: the list of genre rows is then empty, the
  frame built from it has no column \<^verbatim>\<open>genre\<close>, and the summary that \<^verbatim>\<open>transform\<close>
  prints before it returns raises KeyError. Nothing is returned.
\<close>

theorem transform_raises_without_genres:
  assumes "frame_ok df"
    and "set [''title'', ''release_year'', ''director'', ''language'', ''country'',
              ''duration'', ''budget'', ''box_office'', ''genre''] \<subseteq> fst ` set (columns df)"
    and "\<forall>c\<in>set [''title'', ''director'', ''language'', ''country''].
           \<forall>col. getitem df c = Inr col \<longrightarrow> col = [] \<or> list_ex is_str col"
    and "getitem df ''genre'' = Inr genre" and "list_all isna genre"
  shows "transform parse df = Inl (KeyError ''genre'')"
proof -
  have sn: "list_all (\<lambda>v. is_str v \<or> isna v) genre"
    using assms(5) by (simp add: list_all_iff)
  from transform_run[OF assms(1-4) sn, of parse] obtain movies title gss where
    len: "length title = length gss" "length genre = length gss"
    and gss: "map clean_genres genre = map Inr gss"
    and t: "transform parse df =
             (if concat (map2 (\<lambda>t gs. map (Pair t) gs) (strip_cells title) gss) = []
              then Inl (KeyError ''genre'')
              else Inr (movies,
                        DataFrame (concat (map2 (\<lambda>t gs. map (Pair t) gs) (strip_cells title) gss))))"
    by blast
  have "gs = []" if "gs \<in> set gss" for gs
  proof -
    from that obtain i where i: "i < length gss" "gss ! i = gs" by (auto simp add: in_set_conv_nth)
    then have "clean_genres (genre ! i) = Inr gs" using gss len(2) by (metis nth_map)
    moreover have "isna (genre ! i)" using assms(5) i(1) len(2) by (simp add: list_all_length)
    ultimately show ?thesis by (simp add: clean_genres_def)
  qed
  then have "concat (map2 (\<lambda>t gs. map (Pair t) gs) (strip_cells title) gss) = []"
    by (auto simp add: concat_eq_Nil_conv dest: set_zip_rightD)
  then show ?thesis using t by simp
qed

theorem transform_raises_without_genres_witness:
  "frame_ok no_genre_frame \<and> getitem no_genre_frame ''genre'' = Inr [Flt NaN] \<and>
   transform parse_decimal no_genre_frame = Inl (KeyError ''genre'')"
proof -
  have ok: "frame_ok no_genre_frame" by (simp add: frame_ok_def no_genre_frame_def)
  have g: "getitem no_genre_frame ''genre'' = Inr [Flt NaN]"
    by (simp add: no_genre_frame_def getitem_def)
  have "transform parse_decimal no_genre_frame = Inl (KeyError ''genre'')"
    by (rule transform_raises_without_genres[OF ok _ _ g])
       (auto simp add: no_genre_frame_def getitem_def is_str_def isna_def)
  then show ?thesis using ok g by simp
qed

section \<open>Claims about the transformation\<close>











text \<open>
  Claim C8, as the code has it. When \<^verbatim>\<open>transform\<close> returns, the cleaned table has no
  column \<^verbatim>\<open>genre\<close>, it has a column \<^verbatim>\<open>roi\<close>, and every column other than the nine
  that the transformation names and \<^verbatim>\<open>roi\<close> is as it is in the input.
\<close>

theorem other_columns_pass_through:
  assumes "transform parse df = Inr (movies, links)"
  shows "''genre'' \<notin> fst ` set (columns movies) \<and>
         ''roi'' \<in> fst ` set (columns movies) \<and>
         fst ` set (columns movies) = insert ''roi'' (fst ` set (columns df)) - {''genre''} \<and>
         nrows movies = nrows df \<and>
         (\<forall>c. c \<notin> set [''title'', ''release_year'', ''director'', ''language'', ''country'',
                         ''duration'', ''budget'', ''box_office'', ''genre'', ''roi''] \<longrightarrow>
              getitem movies c = getitem df c)"
proof -
  have names: "fst ` set (columns movies) = insert ''roi'' (fst ` set (columns df)) - {''genre''}"
    using assms by (rule transform_column_names)
  have "''genre'' \<notin> fst ` set (columns movies)" "''roi'' \<in> fst ` set (columns movies)"
    unfolding names by simp_all
  moreover have "nrows movies = nrows df" using assms by (rule transform_nrows)
  ultimately show ?thesis using names transform_other_column[OF assms] by blast
qed

theorem other_columns_pass_through_witness:
  "transform parse_decimal example_frame = Inr (example_movies, example_links) \<and>
   ''genre'' \<notin> fst ` set (columns example_movies) \<and>
   ''genre'' \<in> fst ` set (columns example_frame) \<and>
   getitem example_frame ''rating'' = Inr [Str ''PG-13'', Flt NaN] \<and>
   getitem example_movies ''rating'' = Inr [Str ''PG-13'', Flt NaN] \<and>
   getitem example_frame ''roi'' = Inl (KeyError ''roi'') \<and>
   getitem example_movies ''roi'' = Inr [Flt NaN, Flt (Finite 150)]"
proof -
  from other_columns_pass_through[OF transform_example]
  have "''genre'' \<notin> fst ` set (columns example_movies)"
    and "getitem example_movies ''rating'' = getitem example_frame ''rating''"
    by simp_all
  moreover have "''genre'' \<in> fst ` set (columns example_frame)"
    "getitem example_frame ''rating'' = Inr [Str ''PG-13'', Flt NaN]"
    "getitem example_frame ''roi'' = Inl (KeyError ''roi'')"
    "getitem example_movies ''roi'' = Inr [Flt NaN, Flt (Finite 150)]"
    by (simp_all add: example_frame_def example_movies_def getitem_def)
  ultimately show ?thesis using transform_example by simp
qed

text \<open>
  The claim as the specification states it fails for an input column that is not one of
  the nine: a column \<^verbatim>\<open>roi\<close> of the input is replaced by the computed one.
\<close>

theorem input_roi_column_is_overwritten:
  "getitem stale_roi_frame ''roi'' = Inr [Flt (Finite 12)] \<and>
   transform parse_decimal stale_roi_frame =
     Inr (\<lparr>nrows = 1,
           columns = [(''title'', [Str ''Clerks'']), (''release_year'', [Flt (Finite 1994)]),
                      (''director'', [Str ''Kevin Smith'']), (''language'', [Str ''English'']),
                      (''country'', [Str ''USA'']), (''duration'', [Flt (Finite 92)]),
                      (''budget'', [Flt (Finite 100)]), (''box_office'', [Flt (Finite 250)]),
                      (''roi'', [Flt (Finite 150)])]\<rparr>,
          \<lparr>nrows = 1, columns = [(''title'', [Str ''Clerks'']), (''genre'', [Str ''Comedy''])]\<rparr>)"
  by (simp add: stale_roi_frame_def transform_eval)

end
